theory Spec2Isabelle
  imports Complex_Main
begin

section \<open>Data model of theanets/trainer.py\<close>

text \<open>
  A numpy array is its shape and its elements in C (row-major) order. Elements are
  modelled as real numbers: rounding, infinities and NaN of IEEE floats are outside
  the model. A well-formed array holds as many elements as its shape says.
\<close>

record ndarray =
  shape :: "nat list"
  data :: "real list"

definition wf_array :: "ndarray \<Rightarrow> bool" where
  "wf_array a = (length (data a) = prod_list (shape a))"

text \<open>The exceptions that the module raises or lets through.\<close>

datatype exn =
    PatienceElapsedError
  | NoImprovementError
  | KeyboardInterrupt
  | ValueError
  | AssertionError
  | IndexError
  | ZeroDivisionError
  | TypeError

text \<open>
  The fields that \<open>Trainer.__init__\<close> sets. \<open>params\<close> holds the current values of
  the network's shared variables, which every trainer mutates in place.
\<close>

record Trainer =
  params :: "ndarray list"
  validation_frequency :: int
  min_improvement :: real
  iterations :: int
  patience :: int
  shapes :: "nat list list"
  counts :: "nat list"
  best_cost :: real
  best_iter :: int
  best_params :: "ndarray list"

subsection \<open>Flattening and unflattening (Trainer.flat_to_arrays, Trainer.arrays_to_flat)\<close>

text \<open>Python's \<open>x[a:b]\<close> for \<open>0 \<le> a \<le> b\<close>: the slice is cut at the end of \<open>x\<close>.\<close>

definition slice :: "'a list \<Rightarrow> nat \<Rightarrow> nat \<Rightarrow> 'a list" where
  "slice x a b = take (b - a) (drop a x)"

text \<open>\<open>ndarray.reshape\<close> raises ValueError when the sizes differ.\<close>

definition reshape :: "real list \<Rightarrow> nat list \<Rightarrow> exn + ndarray" where
  "reshape xs shp =
     (if length xs = prod_list shp then Inr \<lparr>shape = shp, data = xs\<rparr> else Inl ValueError)"

definition flatten :: "ndarray \<Rightarrow> real list" where
  "flatten a = data a"

text \<open>
  \<open>x[a:b] = vals\<close> on a one-dimensional numpy array: the values must have the length
  of the slice, or be a single value that is broadcast; anything else is a ValueError.
\<close>

definition assign_slice :: "real list \<Rightarrow> nat \<Rightarrow> nat \<Rightarrow> real list \<Rightarrow> exn + real list" where
  "assign_slice x a b vals =
     (let n = length (slice x a b) in
      if length vals = n then Inr (take a x @ vals @ drop (a + n) x)
      else (case vals of
              [v] \<Rightarrow> Inr (take a x @ replicate n v @ drop (a + n) x)
            | _ \<Rightarrow> Inl ValueError))"

text \<open>
  The loop of \<open>flat_to_arrays\<close> over \<open>zip(self.shapes, self.counts)\<close>; it returns the
  arrays and the final value of \<open>start\<close>.
\<close>

fun flat_to_arrays_loop ::
  "real list \<Rightarrow> nat \<Rightarrow> ndarray list \<Rightarrow> (nat list \<times> nat) list \<Rightarrow> exn + (ndarray list \<times> nat)" where
  "flat_to_arrays_loop x start arrays [] = Inr (arrays, start)"
| "flat_to_arrays_loop x start arrays ((shp, count) # rest) =
     (case reshape (slice x start (start + count)) shp of
        Inl e \<Rightarrow> Inl e
      | Inr a \<Rightarrow> flat_to_arrays_loop x (start + count) (arrays @ [a]) rest)"

definition flat_to_arrays :: "'a Trainer_scheme \<Rightarrow> real list \<Rightarrow> exn + ndarray list" where
  "flat_to_arrays self x =
     (case flat_to_arrays_loop x 0 [] (zip (shapes self) (counts self)) of
        Inl e \<Rightarrow> Inl e
      | Inr (arrays, start) \<Rightarrow> if start = length x then Inr arrays else Inl AssertionError)"

text \<open>The loop of \<open>arrays_to_flat\<close> over \<open>zip(arrays, self.counts)\<close>.\<close>

fun arrays_to_flat_loop :: "real list \<Rightarrow> nat \<Rightarrow> (ndarray \<times> nat) list \<Rightarrow> exn + real list" where
  "arrays_to_flat_loop x start [] = Inr x"
| "arrays_to_flat_loop x start ((array, count) # rest) =
     (case assign_slice x start (start + count) (flatten array) of
        Inl e \<Rightarrow> Inl e
      | Inr x' \<Rightarrow> arrays_to_flat_loop x' (start + count) rest)"

definition arrays_to_flat :: "'a Trainer_scheme \<Rightarrow> ndarray list \<Rightarrow> exn + real list" where
  "arrays_to_flat self arrays =
     arrays_to_flat_loop (replicate (sum_list (counts self)) 0) 0 (zip arrays (counts self))"


subsection \<open>Construction (Trainer.__init__) and Trainer.update_params\<close>

text \<open>
  The keyword arguments that the constructors read with \<open>kwargs.get(name, default)\<close>:
  \<open>None\<close> is an absent key.
\<close>

record kwargs =
  kw_validate :: "int option"
  kw_min_improvement :: "real option"
  kw_num_updates :: "int option"
  kw_patience :: "int option"
  kw_momentum :: "real option"
  kw_max_gradient_norm :: "real option"
  kw_learning_rate :: "real option"
  kw_learning_rate_decay :: "real option"
  kw_clip_params_at_zero :: "bool option"

definition kwargs_get :: "'a option \<Rightarrow> 'a \<Rightarrow> 'a" where
  "kwargs_get v d = (case v of None \<Rightarrow> d | Some a \<Rightarrow> a)"

text \<open>
  \<open>Trainer.__init__\<close>, given the values of \<open>network.params(**kwargs)\<close>. Reading
  \<open>self.params[0]\<close> for the dtype raises IndexError on a network without parameters.
  \<open>p.get_value().copy()\<close> is the value itself here: HOL values are immutable, and every
  in-place update of a parameter below replaces the \<open>params\<close> field only, so the
  snapshot in \<open>best_params\<close> never aliases the live parameters.
\<close>

definition Trainer_init :: "ndarray list \<Rightarrow> kwargs \<Rightarrow> exn + Trainer" where
  "Trainer_init network_params kw =
     (if network_params = [] then Inl IndexError
      else Inr \<lparr>params = network_params,
                validation_frequency = kwargs_get (kw_validate kw) 3,
                min_improvement = kwargs_get (kw_min_improvement kw) 0,
                iterations = kwargs_get (kw_num_updates kw) 1000,
                patience = kwargs_get (kw_patience kw) 100,
                shapes = map shape network_params,
                counts = map prod_list (map shape network_params),
                best_cost = 10 ^ 100,
                best_iter = 0,
                best_params = network_params\<rparr>)"

text \<open>
  The loop \<open>for param, target in zip(params, targets): param.set_value(target)\<close>:
  parameters beyond the end of \<open>targets\<close> keep their value.
\<close>

fun set_values :: "ndarray list \<Rightarrow> ndarray list \<Rightarrow> ndarray list" where
  "set_values (param # ps) (target # ts) = target # set_values ps ts"
| "set_values ps _ = ps"


subsection \<open>The network and the interrupt signal\<close>

text \<open>
  The compiled Theano functions of the network, as functions of the current parameter
  values and a batch \<open>x\<close>. \<open>f_eval\<close> and \<open>f_train\<close> return the costs \<open>[J] + monitors\<close>,
  a list that is never empty, as the pair of \<open>J\<close> and the monitors. \<open>f_grad\<close> returns
  one gradient per parameter.

  Modelled from the spec: \<open>network.updates\<close>, which \<open>f_train\<close> applies, is declared
  outside this file; by the spec (section 6) it is a model-internal update
  "independent of the optimizer's own parameter updates", so \<open>f_train\<close> leaves the
  parameters as they are.
\<close>

record 'x network =
  f_eval :: "ndarray list \<Rightarrow> 'x \<Rightarrow> real \<times> real list"
  f_grad :: "ndarray list \<Rightarrow> 'x \<Rightarrow> ndarray list"
  f_train :: "ndarray list \<Rightarrow> 'x \<Rightarrow> real \<times> real list"

text \<open>
  A KeyboardInterrupt arrives between two statements. The places inside
  \<open>Trainer.evaluate\<close>: while the costs are computed, after \<open>self.best_cost\<close> is
  assigned, after \<open>self.best_iter\<close> is assigned, and while the line is logged.
\<close>

datatype eval_point = DuringCosts | AfterBestCost | AfterBestIter | DuringLogging

text \<open>
  The places inside one batch of \<open>_nag\<close> or \<open>_sgd\<close>: in the loop of lookahead moves
  after \<open>j\<close> parameters have moved, or in the loop of updates after \<open>j\<close> parameters
  have been updated.
\<close>

datatype learn_point = DuringMoves nat | DuringUpdates nat

text \<open>
  Where the interrupt arrives in iteration \<open>i\<close> of a training loop, if it does: in the
  call of \<open>evaluate\<close>; in the pass over the training set, after \<open>k\<close> whole batches at a
  place of the next one; in \<open>scipy.optimize.minimize\<close>, with the last point at which
  the minimizer called \<open>function_at\<close> or \<open>gradient_at\<close>, if any. An interrupt
  outside the two \<open>try\<close> blocks of a loop is not caught by it and is not modelled.
\<close>

record interrupts =
  in_evaluate :: "nat \<Rightarrow> eval_point option"
  in_learn :: "nat \<Rightarrow> (nat \<times> learn_point) option"
  in_minimize :: "nat \<Rightarrow> real list option option"

subsection \<open>Trainer.evaluate\<close>

definition mean :: "real list \<Rightarrow> real" where
  "mean xs = sum_list xs / real (length xs)"

text \<open>
  \<open>np.mean([self.f_eval(*x) for x in batches], axis=0)[0]\<close>: the mean of \<open>J\<close> over the
  batches. Over no batch \<open>np.mean\<close> is a scalar NaN, and indexing it raises IndexError.
\<close>

definition primary_cost :: "'x network \<Rightarrow> ndarray list \<Rightarrow> 'x list \<Rightarrow> exn + real" where
  "primary_cost net ps batches =
     (if batches = [] then Inl IndexError
      else Inr (mean (map (\<lambda>x. fst (f_eval net ps x)) batches)))"

text \<open>
  \<open>evaluate\<close> returns the exception it raises, if any, and the trainer as it leaves
  it. The log line is not modelled.
\<close>

definition evaluate ::
  "'x network \<Rightarrow> eval_point option \<Rightarrow> 'a Trainer_scheme \<Rightarrow> int \<Rightarrow> 'x list
     \<Rightarrow> exn option \<times> 'a Trainer_scheme" where
  "evaluate net sig self iteration valid_set =
     (if sig = Some DuringCosts then (Some KeyboardInterrupt, self)
      else case primary_cost net (params self) valid_set of
        Inl e \<Rightarrow> (Some e, self)
      | Inr c \<Rightarrow>
         (let improvement = (best_cost self - c > best_cost self * min_improvement self) in
          if improvement \<and> sig = Some AfterBestCost
            then (Some KeyboardInterrupt, self\<lparr>best_cost := c\<rparr>)
          else if improvement \<and> sig = Some AfterBestIter
            then (Some KeyboardInterrupt, self\<lparr>best_cost := c, best_iter := iteration\<rparr>)
          else
            (let self' = (if improvement
                          then self\<lparr>best_cost := c, best_iter := iteration,
                                    best_params := params self\<rparr>
                          else self) in
             if sig \<noteq> None then (Some KeyboardInterrupt, self')
             else if iteration - best_iter self' > patience self'
               then (Some PatienceElapsedError, self')
             else if \<not> improvement then (Some NoImprovementError, self')
             else (None, self'))))"


subsection \<open>The SGD trainer: gradient rescaling and the application of a step\<close>

record SGD = Trainer +
  momentum :: real
  max_gradient_norm :: real
  learning_rate :: real
  learning_rate_decay :: real
  clip_params_at_zero :: bool


text \<open>
  Arithmetic on arrays is elementwise. In every call below the two operands have the
  same shape (a velocity is \<open>zeros_like\<close> its parameter, and Theano's gradient of the
  cost in a parameter has the shape of the parameter), where numpy neither
  broadcasts nor raises; \<open>map2\<close> stops at the shorter operand otherwise.
\<close>

definition nd_scale :: "real \<Rightarrow> ndarray \<Rightarrow> ndarray" where
  "nd_scale c a = a\<lparr>data := map (\<lambda>x. c * x) (data a)\<rparr>"

definition nd_add :: "ndarray \<Rightarrow> ndarray \<Rightarrow> ndarray" where
  "nd_add a b = a\<lparr>data := map2 (+) (data a) (data b)\<rparr>"

definition zeros_like :: "ndarray \<Rightarrow> ndarray" where
  "zeros_like a = a\<lparr>data := map (\<lambda>_. 0) (data a)\<rparr>"

text \<open>\<open>np.linalg.norm\<close> of an array: the 2-norm of its elements.\<close>

definition linalg_norm :: "ndarray \<Rightarrow> real" where
  "linalg_norm g = sqrt (\<Sum>x\<leftarrow>data g. x\<^sup>2)"

text \<open>
  \<open>SGD._maybe_rescale_gradient\<close>. The division is by a norm above
  \<open>max_gradient_norm\<close>; that norm is zero only under a negative bound, where numpy
  yields NaN and HOL's division yields zero.
\<close>

definition maybe_rescale_gradient :: "'a SGD_scheme \<Rightarrow> ndarray \<Rightarrow> ndarray \<times> real" where
  "maybe_rescale_gradient self grad =
     (let g = grad;
          l = linalg_norm g
      in if l > max_gradient_norm self
         then (let g1 = g\<lparr>data := map (\<lambda>x. x / l) (data g)\<rparr>;
                   g2 = g1\<lparr>data := map (\<lambda>x. x * max_gradient_norm self) (data g1)\<rparr>
               in (g2, l))
         else (g, l))"

text \<open>\<open>SGD._apply_delta\<close>, with the four boolean masks of the source.\<close>

definition apply_delta :: "'a SGD_scheme \<Rightarrow> ndarray \<Rightarrow> ndarray \<Rightarrow> ndarray" where
  "apply_delta self param delta =
     (let v0 = data param;
          pos0 = map (\<lambda>x. x > 0) v0;
          neg0 = map (\<lambda>x. x < 0) v0;
          v1 = map2 (+) v0 (data delta);
          pos1 = map (\<lambda>x. x > 0) v1;
          neg1 = map (\<lambda>x. x < 0) v1;
          mask = map2 (\<or>) (map2 (\<and>) pos0 neg1) (map2 (\<and>) neg0 pos1);
          v2 = (if clip_params_at_zero self
                then map2 (\<lambda>m x. if m then 0 else x) mask v1
                else v1)
      in param\<lparr>data := v2\<rparr>)"

subsection \<open>SGD._sgd and SGD._nag\<close>

text \<open>
  The loop of \<open>_sgd\<close> over \<open>zip(self.params, self.f_grad(*x))\<close>: the new parameter
  values and the list \<open>grads\<close> of gradient norms.
\<close>

fun sgd_updates :: "'a SGD_scheme \<Rightarrow> ndarray list \<Rightarrow> ndarray list \<Rightarrow> ndarray list \<times> real list" where
  "sgd_updates self (p # ps) (g # gs) =
     (let (grad, len) = maybe_rescale_gradient self g;
          p' = apply_delta self p (nd_scale (- learning_rate self) grad);
          (ps', grads) = sgd_updates self ps gs
      in (p' # ps', len # grads))"
| "sgd_updates self ps _ = (ps, [])"

text \<open>One batch of \<open>_sgd\<close>: the trainer after it, and what the generator yields.\<close>

definition sgd_batch ::
  "'x network \<Rightarrow> 'a SGD_scheme \<Rightarrow> 'x \<Rightarrow> 'a SGD_scheme \<times> ((real \<times> real list) \<times> real list)" where
  "sgd_batch net self x =
     (let (ps, grads) = sgd_updates self (params self) (f_grad net (params self) x)
      in (self\<lparr>params := ps\<rparr>, (f_train net ps x, grads)))"

text \<open>
  \<open>_sgd\<close>, run to the end of the training set: the trainer, the velocities (which it
  does not touch) and the list of what it yields.
\<close>

fun sgd ::
  "'x network \<Rightarrow> 'a SGD_scheme \<Rightarrow> 'x list \<Rightarrow> ndarray list
     \<Rightarrow> 'a SGD_scheme \<times> ndarray list \<times> ((real \<times> real list) \<times> real list) list" where
  "sgd net self [] velocities = (self, velocities, [])"
| "sgd net self (x # train_set) velocities =
     (let (self1, y) = sgd_batch net self x;
          (self2, velocities2, ys) = sgd net self1 train_set velocities
      in (self2, velocities2, y # ys))"

text \<open>
  The first loop of \<open>_nag\<close>, over \<open>zip(self.params, velocities)\<close>: the parameters
  moved to the lookahead position, and the list \<open>moves\<close>.
\<close>

fun nag_moves :: "'a SGD_scheme \<Rightarrow> ndarray list \<Rightarrow> ndarray list \<Rightarrow> ndarray list \<times> ndarray list" where
  "nag_moves self (param # ps) (vel # vs) =
     (let u = nd_scale (momentum self) vel;
          v = nd_add param u;
          (ps', moves) = nag_moves self ps vs
      in (v # ps', u # moves))"
| "nag_moves self ps _ = (ps, [])"

text \<open>
  The second loop of \<open>_nag\<close>, over \<open>zip(self.params, velocities, self.f_grad(*x), moves)\<close>:
  the new parameters, the new velocities (\<open>v[:] = u + d\<close> writes into the velocity)
  and the gradient norms.
\<close>

fun nag_updates ::
  "'a SGD_scheme \<Rightarrow> ndarray list \<Rightarrow> ndarray list \<Rightarrow> ndarray list \<Rightarrow> ndarray list
     \<Rightarrow> ndarray list \<times> ndarray list \<times> real list" where
  "nag_updates self (p # ps) (v # vs) (g # gs) (u # us) =
     (let (grad, len) = maybe_rescale_gradient self g;
          d = nd_scale (- learning_rate self) grad;
          p' = apply_delta self p d;
          v' = v\<lparr>data := data (nd_add u d)\<rparr>;
          (ps', vs', grads) = nag_updates self ps vs gs us
      in (p' # ps', v' # vs', len # grads))"
| "nag_updates self ps vs _ _ = (ps, vs, [])"

definition nag_batch ::
  "'x network \<Rightarrow> 'a SGD_scheme \<Rightarrow> 'x \<Rightarrow> ndarray list
     \<Rightarrow> 'a SGD_scheme \<times> ndarray list \<times> ((real \<times> real list) \<times> real list)" where
  "nag_batch net self x velocities =
     (let (ps1, moves) = nag_moves self (params self) velocities;
          (ps2, velocities2, grads) = nag_updates self ps1 velocities (f_grad net ps1 x) moves
      in (self\<lparr>params := ps2\<rparr>, velocities2, (f_train net ps2 x, grads)))"

fun nag ::
  "'x network \<Rightarrow> 'a SGD_scheme \<Rightarrow> 'x list \<Rightarrow> ndarray list
     \<Rightarrow> 'a SGD_scheme \<times> ndarray list \<times> ((real \<times> real list) \<times> real list) list" where
  "nag net self [] velocities = (self, velocities, [])"
| "nag net self (x # train_set) velocities =
     (let (self1, velocities1, y) = nag_batch net self x velocities;
          (self2, velocities2, ys) = nag net self1 train_set velocities1
      in (self2, velocities2, y # ys))"


subsection \<open>Interruption of a pass over the training set\<close>

text \<open>
  The steps of one loop of a batch are independent of each other (the gradients are
  computed before the loop starts), so after \<open>j\<close> steps the first \<open>j\<close> parameters
  have their new value and the others their old one.
\<close>

definition partial :: "nat \<Rightarrow> 'a list \<Rightarrow> 'a list \<Rightarrow> 'a list" where
  "partial j new old = take j new @ drop j old"

definition sgd_batch_interrupted ::
  "'x network \<Rightarrow> 'a SGD_scheme \<Rightarrow> 'x \<Rightarrow> learn_point \<Rightarrow> 'a SGD_scheme" where
  "sgd_batch_interrupted net self x pt =
     (case pt of
        DuringMoves j \<Rightarrow> self
      | DuringUpdates j \<Rightarrow>
          (let (ps, grads) = sgd_updates self (params self) (f_grad net (params self) x)
           in self\<lparr>params := partial j ps (params self)\<rparr>))"

definition nag_batch_interrupted ::
  "'x network \<Rightarrow> 'a SGD_scheme \<Rightarrow> 'x \<Rightarrow> ndarray list \<Rightarrow> learn_point \<Rightarrow> 'a SGD_scheme" where
  "nag_batch_interrupted net self x velocities pt =
     (let (ps1, moves) = nag_moves self (params self) velocities
      in case pt of
           DuringMoves j \<Rightarrow> self\<lparr>params := partial j ps1 (params self)\<rparr>
         | DuringUpdates j \<Rightarrow>
             (let (ps2, velocities2, grads) =
                    nag_updates self ps1 velocities (f_grad net ps1 x) moves
              in self\<lparr>params := partial j ps2 ps1\<rparr>))"

text \<open>\<open>learn = self._nag if self.momentum > 0 else self._sgd\<close>\<close>

definition learn ::
  "'x network \<Rightarrow> 'a SGD_scheme \<Rightarrow> 'x list \<Rightarrow> ndarray list
     \<Rightarrow> 'a SGD_scheme \<times> ndarray list \<times> ((real \<times> real list) \<times> real list) list" where
  "learn net self train_set velocities =
     (if momentum self > 0 then nag net self train_set velocities
      else sgd net self train_set velocities)"

text \<open>
  The pass \<open>for costs_, grads_ in learn(train_set, velocities)\<close> of \<open>SGD.train\<close>:
  \<open>Inl\<close> is the trainer at the moment a KeyboardInterrupt cuts the pass, \<open>Inr\<close> the
  result of a pass that runs to its end. An interrupt placed after the last batch
  does not arrive during the pass.
\<close>

definition learn_pass ::
  "'x network \<Rightarrow> (nat \<times> learn_point) option \<Rightarrow> 'a SGD_scheme \<Rightarrow> 'x list \<Rightarrow> ndarray list
     \<Rightarrow> 'a SGD_scheme + 'a SGD_scheme \<times> ndarray list \<times> ((real \<times> real list) \<times> real list) list" where
  "learn_pass net sig self train_set velocities =
     (case sig of
        None \<Rightarrow> Inr (learn net self train_set velocities)
      | Some (k, pt) \<Rightarrow>
          if k < length train_set
          then (let (self1, velocities1, ys) = learn net self (take k train_set) velocities
                in Inl (if momentum self > 0
                        then nag_batch_interrupted net self1 (train_set ! k) velocities1 pt
                        else sgd_batch_interrupted net self1 (train_set ! k) pt))
          else Inr (learn net self train_set velocities))"

subsection \<open>SGD.train\<close>

text \<open>
  How a training loop ends: PatienceElapsedError in iteration \<open>i\<close>, a
  KeyboardInterrupt in iteration \<open>i\<close>, or the end of \<open>xrange(self.iterations)\<close>.
\<close>

datatype terminal = Converged nat | Interrupted nat | Exhausted

text \<open>What the body of a training loop does: go on, \<open>break\<close>, or let an exception through.\<close>

datatype 's step = Continue 's "ndarray list" | Break terminal 's | Raise exn





subsection \<open>The Scipy trainer\<close>













subsection \<open>Sequences of calls of evaluate\<close>

text \<open>
  A sequence of calls of \<open>evaluate\<close> on one trainer, as a training loop makes them:
  each call has its iteration and its validation set, and finds the parameters at
  the values that training has given them since the call before. The result is the
  list of the trainers after the calls.
\<close>

fun evaluate_calls ::
  "'x network \<Rightarrow> 'a Trainer_scheme \<Rightarrow> (int \<times> ndarray list \<times> 'x list) list \<Rightarrow> 'a Trainer_scheme list" where
  "evaluate_calls net self [] = []"
| "evaluate_calls net self ((iteration, ps, valid_set) # calls) =
     (let self' = snd (evaluate net None (self\<lparr>params := ps\<rparr>) iteration valid_set)
      in self' # evaluate_calls net self' calls)"

text \<open>Every validation batch of every call has a primary cost that is not negative.\<close>

definition nonneg_costs :: "'x network \<Rightarrow> (int \<times> ndarray list \<times> 'x list) list \<Rightarrow> bool" where
  "nonneg_costs net calls =
     list_all (\<lambda>(iteration, ps, valid_set). list_all (\<lambda>x. 0 \<le> fst (f_eval net ps x)) valid_set) calls"

section \<open>Concrete inputs\<close>

text \<open>
  A trainer over one parameter of two elements, with a gradient bound of 1, a
  patience of 1 and clipping at zero.
\<close>

definition example_sgd :: SGD where
  "example_sgd =
     \<lparr>params = [\<lparr>shape = [2], data = [1, - 1]\<rparr>],
      validation_frequency = 3, min_improvement = 0, iterations = 10, patience = 1,
      shapes = [[2]], counts = [2], best_cost = 10 ^ 100, best_iter = 0,
      best_params = [\<lparr>shape = [2], data = [1, - 1]\<rparr>],
      momentum = 0, max_gradient_norm = 1, learning_rate = 1 / 10,
      learning_rate_decay = 1 / 10, clip_params_at_zero = True\<rparr>"

text \<open>No keyword argument given: every option has its default.\<close>

definition example_kwargs :: kwargs where
  "example_kwargs =
     \<lparr>kw_validate = None, kw_min_improvement = None, kw_num_updates = None,
      kw_patience = None, kw_momentum = None, kw_max_gradient_norm = None,
      kw_learning_rate = None, kw_learning_rate_decay = None,
      kw_clip_params_at_zero = None\<rparr>"

text \<open>The trainer that \<open>Trainer.__init__\<close> builds over a vector and a 2x1 matrix.\<close>

definition example_trainer :: Trainer where
  "example_trainer =
     \<lparr>params = [\<lparr>shape = [2], data = [1, 2]\<rparr>, \<lparr>shape = [2, 1], data = [3, 4]\<rparr>],
      validation_frequency = 3, min_improvement = 0, iterations = 1000, patience = 100,
      shapes = [[2], [2, 1]], counts = [2, 2], best_cost = 10 ^ 100, best_iter = 0,
      best_params = [\<lparr>shape = [2], data = [1, 2]\<rparr>, \<lparr>shape = [2, 1], data = [3, 4]\<rparr>]\<rparr>"

text \<open>
  A network whose batch is a number, the cost on it that number itself; its gradients
  are zero.
\<close>

definition example_costs :: "real network" where
  "example_costs =
     \<lparr>f_eval = (\<lambda>ps x. (x, [])), f_grad = (\<lambda>ps x. map zeros_like ps),
      f_train = (\<lambda>ps x. (x, []))\<rparr>"


text \<open>A run that no KeyboardInterrupt reaches.\<close>

definition no_interrupts :: interrupts where
  "no_interrupts =
     \<lparr>in_evaluate = (\<lambda>i. None), in_learn = (\<lambda>i. None), in_minimize = (\<lambda>i. None)\<rparr>"

text \<open>
  A run that a KeyboardInterrupt reaches in iteration 1, in the first batch of the
  pass, after one parameter has been updated.
\<close>

definition interrupt_in_pass :: interrupts where
  "interrupt_in_pass =
     \<lparr>in_evaluate = (\<lambda>i. None),
      in_learn = (\<lambda>i. if i = 1 then Some (0, DuringUpdates 1) else None),
      in_minimize = (\<lambda>i. None)\<rparr>"




section \<open>Properties\<close>

subsection \<open>SGD._apply_delta\<close>


lemma apply_delta_shape: "shape (apply_delta self param delta) = shape param"
  by (simp add: apply_delta_def Let_def)

text \<open>
  C9. For a parameter and a delta of the same shape, \<open>_apply_delta\<close> keeps the number
  of elements, and sets each element to old + delta when \<open>clip_params_at_zero\<close> is off.
  When it is on, an element that was positive and becomes \<open>\<le> 0\<close>, or was negative and
  becomes \<open>\<ge> 0\<close>, ends as exactly zero, and every other element ends as old + delta.
\<close>

theorem apply_delta_elementwise:
  assumes "length (data delta) = length (data param)" and "i < length (data param)"
  shows "length (data (apply_delta self param delta)) = length (data param) \<and>
    (let old = data param ! i;
         new = old + data delta ! i;
         result = data (apply_delta self param delta) ! i
     in (\<not> clip_params_at_zero self \<longrightarrow> result = new) \<and>
        (clip_params_at_zero self \<longrightarrow>
           (if (0 < old \<and> new \<le> 0) \<or> (old < 0 \<and> 0 \<le> new) then result = 0
            else result = new)))"
  using assms by (auto simp add: apply_delta_def Let_def)

theorem apply_delta_elementwise_witness:
  "length (data \<lparr>shape = [2], data = [- 2, 1 / 2]\<rparr>)
     = length (data \<lparr>shape = [2], data = [1, - 1]\<rparr>) \<and>
   (0::nat) < length (data \<lparr>shape = [2], data = [1, - 1]\<rparr>) \<and>
   clip_params_at_zero example_sgd \<and>
   data (apply_delta example_sgd \<lparr>shape = [2], data = [1, - 1]\<rparr>
           \<lparr>shape = [2], data = [- 2, 1 / 2]\<rparr>) ! 0 = 0"
  using apply_delta_elementwise
    [of "\<lparr>shape = [2], data = [- 2, 1 / 2]\<rparr>" "\<lparr>shape = [2], data = [1, - 1]\<rparr>" 0 example_sgd]
  by (simp add: example_sgd_def Let_def)

subsection \<open>SGD._maybe_rescale_gradient\<close>









subsection \<open>Flattening is a bijection on buffers of the right length\<close>

lemma arrays_to_flat_loop_concat:
  "list_all2 (\<lambda>a c. length (data a) = c) arrays cs \<Longrightarrow>
   start + sum_list cs \<le> length x \<Longrightarrow>
   arrays_to_flat_loop x start (zip arrays cs) =
     Inr (take start x @ concat (map data arrays) @ drop (start + sum_list cs) x)"
proof (induction arrays cs arbitrary: x start rule: list_all2_induct)
  case Nil
  then show ?case by simp
next
  case (Cons a arrays c cs)
  define x' where "x' = take start x @ data a @ drop (start + c) x"
  from Cons have la: "length (data a) = c" and bound: "start + c + sum_list cs \<le> length x"
    by auto
  have sl: "length (slice x start (start + c)) = c"
    using bound by (simp add: slice_def)
  have step: "assign_slice x start (start + c) (flatten a) = Inr x'"
    by (simp add: assign_slice_def sl la flatten_def x'_def Let_def)
  have lx': "length x' = length x"
    using bound la by (simp add: x'_def)
  have tk: "take (start + c) x' = take start x @ data a"
    using bound la by (simp add: x'_def)
  have dr: "drop (start + (c + sum_list cs)) x' = drop (start + (c + sum_list cs)) x"
    using bound la by (simp add: x'_def ac_simps)
  have "arrays_to_flat_loop x' (start + c) (zip arrays cs) =
      Inr (take (start + c) x' @ concat (map data arrays) @ drop (start + c + sum_list cs) x')"
    using Cons.IH[of "start + c" x'] bound lx' by simp
  then show ?case
    by (simp add: step tk dr add.assoc)
qed

lemma flat_to_arrays_loop_concat:
  "list_all wf_array arrays \<Longrightarrow>
   flat_to_arrays_loop (pre @ concat (map data arrays) @ post) (length pre) acc
       (zip (map shape arrays) (map prod_list (map shape arrays)))
     = Inr (acc @ arrays, length pre + length (concat (map data arrays)))"
proof (induction arrays arbitrary: pre acc)
  case Nil
  then show ?case by simp
next
  case (Cons a arrays)
  from Cons.prems have "wf_array a" and rest: "list_all wf_array arrays"
    by simp_all
  then have wa: "length (data a) = prod_list (shape a)"
    by (simp add: wf_array_def)
  have sl: "slice (pre @ data a @ concat (map data arrays) @ post) (length pre)
              (length pre + prod_list (shape a)) = data a"
    using wa by (simp add: slice_def)
  have rs: "reshape (data a) (shape a) = Inr a"
    using wa by (simp add: reshape_def)
  have "flat_to_arrays_loop ((pre @ data a) @ concat (map data arrays) @ post)
          (length (pre @ data a)) (acc @ [a])
          (zip (map shape arrays) (map prod_list (map shape arrays)))
        = Inr ((acc @ [a]) @ arrays, length (pre @ data a) + length (concat (map data arrays)))"
    by (rule Cons.IH[OF rest])
  then show ?case
    using wa by (simp add: sl rs add.assoc)
qed

lemma flat_to_arrays_loop_total:
  "start + sum_list (map prod_list shps) \<le> length x \<Longrightarrow>
   \<exists>arrays. flat_to_arrays_loop x start acc (zip shps (map prod_list shps))
                = Inr (acc @ arrays, start + sum_list (map prod_list shps)) \<and>
             map shape arrays = shps \<and> list_all wf_array arrays \<and>
             concat (map data arrays) = slice x start (start + sum_list (map prod_list shps))"
proof (induction shps arbitrary: start acc)
  case Nil
  then show ?case by (simp add: slice_def)
next
  case (Cons shp shps)
  let ?c = "prod_list shp" and ?t = "sum_list (map prod_list shps)"
  from Cons.prems have bound: "start + ?c + ?t \<le> length x" by simp
  define a where "a = \<lparr>shape = shp, data = slice x start (start + ?c)\<rparr>"
  have la: "length (slice x start (start + ?c)) = ?c"
    using bound by (simp add: slice_def)
  have rs: "reshape (slice x start (start + ?c)) shp = Inr a"
    by (simp add: reshape_def la a_def)
  from Cons.IH[of "start + ?c" "acc @ [a]"] bound
  obtain arrays where
    loop: "flat_to_arrays_loop x (start + ?c) (acc @ [a]) (zip shps (map prod_list shps))
             = Inr ((acc @ [a]) @ arrays, start + ?c + ?t)"
    and sh: "map shape arrays = shps" and wf: "list_all wf_array arrays"
    and cc: "concat (map data arrays) = slice x (start + ?c) (start + ?c + ?t)"
    by auto
  have split: "slice x start (start + (?c + ?t))
      = slice x start (start + ?c) @ slice x (start + ?c) (start + ?c + ?t)"
    by (simp add: slice_def take_add ac_simps)
  have f1: "flat_to_arrays_loop x start acc (zip (shp # shps) (map prod_list (shp # shps)))
      = Inr (acc @ a # arrays, start + sum_list (map prod_list (shp # shps)))"
    using loop by (simp add: rs add.assoc)
  have f2: "map shape (a # arrays) = shp # shps"
    using sh by (simp add: a_def)
  have f3: "list_all wf_array (a # arrays)"
    using wf la by (simp add: wf_array_def a_def)
  have f4: "concat (map data (a # arrays))
      = slice x start (start + sum_list (map prod_list (shp # shps)))"
    using cc by (simp add: a_def split)
  show ?case
    by (rule exI[of _ "a # arrays"]) (intro conjI f1 f2 f3 f4)
qed

text \<open>
  C2. In a trainer whose counts are the element counts of its shapes (as
  \<open>Trainer.__init__\<close> sets them): for well-formed arrays of the declared shapes,
  \<open>arrays_to_flat\<close> returns the concatenation of their elements in order, whose length is
  the sum of the counts, and \<open>flat_to_arrays\<close> of that buffer returns the same arrays;
  and for every buffer of that length, \<open>flat_to_arrays\<close> succeeds and \<open>arrays_to_flat\<close>
  of its result returns the buffer.
\<close>

theorem flatten_roundtrip:
  assumes "counts self = map prod_list (shapes self)"
  shows "(map shape arrays = shapes self \<and> list_all wf_array arrays \<longrightarrow>
           arrays_to_flat self arrays = Inr (concat (map flatten arrays)) \<and>
           length (concat (map flatten arrays)) = sum_list (counts self) \<and>
           flat_to_arrays self (concat (map flatten arrays)) = Inr arrays) \<and>
         (length x = sum_list (counts self) \<longrightarrow>
           (\<exists>arrays. flat_to_arrays self x = Inr arrays \<and> arrays_to_flat self arrays = Inr x))"
proof (intro conjI impI)
  assume h: "map shape arrays = shapes self \<and> list_all wf_array arrays"
  then have sh: "map shape arrays = shapes self" and wf: "list_all wf_array arrays" by auto
  have cs: "counts self = map prod_list (map shape arrays)"
    using assms sh by simp
  have lens: "list_all2 (\<lambda>a c. length (data a) = c) arrays (counts self)"
    using wf unfolding cs by (induction arrays) (simp_all add: wf_array_def)
  have fl: "map flatten arrays = map data arrays"
    by (simp add: flatten_def)
  have total: "length (concat (map data arrays)) = sum_list (counts self)"
    using wf unfolding cs by (induction arrays) (simp_all add: wf_array_def)
  show "arrays_to_flat self arrays = Inr (concat (map flatten arrays))"
    using arrays_to_flat_loop_concat[OF lens, of 0 "replicate (sum_list (counts self)) 0"]
    by (simp add: arrays_to_flat_def fl)
  show "length (concat (map flatten arrays)) = sum_list (counts self)"
    using total by (simp add: fl)
  show "flat_to_arrays self (concat (map flatten arrays)) = Inr arrays"
    using flat_to_arrays_loop_concat[OF wf, of "[]" "[]" "[]"]
    by (simp add: flat_to_arrays_def fl cs sh[symmetric])
next
  assume len: "length x = sum_list (counts self)"
  from flat_to_arrays_loop_total[of 0 "shapes self" x "[]"] len assms
  obtain arrays where
    loop: "flat_to_arrays_loop x 0 [] (zip (shapes self) (counts self))
             = Inr (arrays, sum_list (counts self))"
    and sh: "map shape arrays = shapes self" and wf: "list_all wf_array arrays"
    and cc: "concat (map data arrays) = slice x 0 (sum_list (counts self))"
    by auto
  have cs: "counts self = map prod_list (map shape arrays)"
    using assms sh by simp
  have lens: "list_all2 (\<lambda>a c. length (data a) = c) arrays (counts self)"
    using wf unfolding cs by (induction arrays) (simp_all add: wf_array_def)
  have "flat_to_arrays self x = Inr arrays"
    using loop len by (simp add: flat_to_arrays_def)
  moreover have "arrays_to_flat self arrays = Inr x"
    using arrays_to_flat_loop_concat[OF lens, of 0 "replicate (sum_list (counts self)) 0"] cc len
    by (simp add: arrays_to_flat_def slice_def)
  ultimately show "\<exists>arrays. flat_to_arrays self x = Inr arrays \<and> arrays_to_flat self arrays = Inr x"
    by blast
qed

lemma Trainer_init_counts:
  "Trainer_init network_params kw = Inr self \<Longrightarrow> counts self = map prod_list (shapes self)"
  by (auto simp add: Trainer_init_def split: if_splits)

lemma example_trainer_constructed:
  "Trainer_init [\<lparr>shape = [2], data = [1, 2]\<rparr>, \<lparr>shape = [2, 1], data = [3, 4]\<rparr>] example_kwargs
     = Inr example_trainer"
  by (simp add: Trainer_init_def example_trainer_def example_kwargs_def kwargs_get_def)

theorem flatten_roundtrip_witness:
  "counts example_trainer = map prod_list (shapes example_trainer) \<and>
   map shape [\<lparr>shape = [2], data = [1, 2]\<rparr>, \<lparr>shape = [2, 1], data = [3, 4]\<rparr>]
     = shapes example_trainer \<and>
   list_all wf_array [\<lparr>shape = [2], data = [1, 2]\<rparr>, \<lparr>shape = [2, 1], data = [3, 4]\<rparr>] \<and>
   arrays_to_flat example_trainer
       [\<lparr>shape = [2], data = [1, 2]\<rparr>, \<lparr>shape = [2, 1], data = [3, 4]\<rparr>] = Inr [1, 2, 3, 4] \<and>
   flat_to_arrays example_trainer [1, 2, 3, 4]
     = Inr [\<lparr>shape = [2], data = [1, 2]\<rparr>, \<lparr>shape = [2, 1], data = [3, 4]\<rparr>] \<and>
   length [5, 6, 7, 8 :: real] = sum_list (counts example_trainer) \<and>
   (\<exists>arrays. flat_to_arrays example_trainer [5, 6, 7, 8] = Inr arrays \<and>
             arrays_to_flat example_trainer arrays = Inr [5, 6, 7, 8])"
  using flatten_roundtrip [of example_trainer
      "[\<lparr>shape = [2], data = [1, 2]\<rparr>, \<lparr>shape = [2, 1], data = [3, 4]\<rparr>]" "[5, 6, 7, 8]"]
  by (simp add: example_trainer_def wf_array_def flatten_def)

subsection \<open>Trainer.evaluate\<close>

lemma evaluate_no_interrupt:
  "primary_cost net (params self) valid_set = Inr c \<Longrightarrow>
   evaluate net None self iteration valid_set =
     (let improvement = (best_cost self - c > best_cost self * min_improvement self);
          self' = (if improvement
                   then self\<lparr>best_cost := c, best_iter := iteration, best_params := params self\<rparr>
                   else self)
      in (if iteration - best_iter self' > patience self' then Some PatienceElapsedError
          else if \<not> improvement then Some NoImprovementError else None, self'))"
  by (simp add: evaluate_def Let_def)

text \<open>
  C7. A call of \<open>evaluate\<close> that computes its cost and that no interrupt reaches
  raises PatienceElapsedError exactly when \<open>iteration - best_iter > patience\<close> for the
  value of \<open>best_iter\<close> after the call's own update; the trainer it leaves has the best
  cost, iteration and parameters updated if the call improves and is unchanged if not;
  NoImprovementError is raised only when the call does not improve and the patience
  has not elapsed, so PatienceElapsedError wins where both conditions hold.
\<close>

theorem evaluate_patience_elapsed:
  assumes "primary_cost net (params self) valid_set = Inr c"
  shows "(let improvement = (best_cost self - c > best_cost self * min_improvement self);
              (raised, self') = evaluate net None self iteration valid_set
          in (raised = Some PatienceElapsedError \<longleftrightarrow> iteration - best_iter self' > patience self) \<and>
             (raised = Some NoImprovementError \<longleftrightarrow>
                \<not> improvement \<and> \<not> iteration - best_iter self' > patience self) \<and>
             (raised = None \<longleftrightarrow> improvement \<and> \<not> iteration - best_iter self' > patience self) \<and>
             (improvement \<longrightarrow>
                self' = self\<lparr>best_cost := c, best_iter := iteration, best_params := params self\<rparr>) \<and>
             (\<not> improvement \<longrightarrow> self' = self))"
  by (simp add: evaluate_no_interrupt[OF assms] Let_def)

lemma primary_cost_single: "primary_cost example_costs ps [x] = Inr x"
  by (simp add: primary_cost_def example_costs_def mean_def)

theorem evaluate_patience_elapsed_witness:
  "primary_cost example_costs (params example_trainer) [5] = Inr 5 \<and>
   evaluate example_costs None (example_trainer\<lparr>best_cost := 5\<rparr>) 101 [5]
     = (Some PatienceElapsedError, example_trainer\<lparr>best_cost := 5\<rparr>) \<and>
   evaluate example_costs None (example_trainer\<lparr>patience := - 1\<rparr>) 0 [5]
     = (Some PatienceElapsedError,
        example_trainer\<lparr>patience := - 1, best_cost := 5, best_iter := 0\<rparr>)"
  using evaluate_patience_elapsed [of example_costs "example_trainer\<lparr>best_cost := 5\<rparr>" "[5]" 5 101]
    evaluate_patience_elapsed [of example_costs "example_trainer\<lparr>patience := - 1\<rparr>" "[5]" 5 0]
  by (simp add: primary_cost_single example_trainer_def Let_def split: prod.splits)

lemma mean_nonneg: "(\<forall>x\<in>set xs. 0 \<le> x) \<Longrightarrow> 0 \<le> mean xs"
  by (simp add: mean_def sum_list_nonneg)

lemma primary_cost_nonneg:
  "primary_cost net ps valid_set = Inr c \<Longrightarrow> \<forall>x\<in>set valid_set. 0 \<le> fst (f_eval net ps x) \<Longrightarrow> 0 \<le> c"
  by (auto simp add: primary_cost_def split: if_splits intro!: mean_nonneg)

lemma evaluate_raises_without_cost:
  "primary_cost net (params self) valid_set = Inl e \<Longrightarrow>
   evaluate net None self iteration valid_set = (Some e, self)"
  by (simp add: evaluate_def)

lemma evaluate_min_improvement:
  "min_improvement (snd (evaluate net None self iteration valid_set)) = min_improvement self"
  by (cases "primary_cost net (params self) valid_set")
     (simp_all add: evaluate_raises_without_cost evaluate_no_interrupt Let_def)

lemma evaluate_best_cost_le:
  assumes "min_improvement self = 0 \<or> (0 \<le> min_improvement self \<and> 0 \<le> best_cost self)"
  shows "best_cost (snd (evaluate net None self iteration valid_set)) \<le> best_cost self"
proof (cases "primary_cost net (params self) valid_set")
  case (Inl e)
  then show ?thesis by (simp add: evaluate_raises_without_cost)
next
  case (Inr c)
  have "c \<le> best_cost self" if "best_cost self - c > best_cost self * min_improvement self"
  proof -
    from assms have "0 \<le> best_cost self * min_improvement self" by auto
    with that show ?thesis by simp
  qed
  then show ?thesis
    by (auto simp add: evaluate_no_interrupt[OF Inr] Let_def)
qed

lemma evaluate_best_cost_nonneg:
  assumes "0 \<le> best_cost self" and "\<forall>x\<in>set valid_set. 0 \<le> fst (f_eval net (params self) x)"
  shows "0 \<le> best_cost (snd (evaluate net None self iteration valid_set))"
proof (cases "primary_cost net (params self) valid_set")
  case (Inl e)
  with assms show ?thesis by (simp add: evaluate_raises_without_cost)
next
  case (Inr c)
  with assms have "0 \<le> c" by (auto dest: primary_cost_nonneg)
  with assms show ?thesis
    by (simp add: evaluate_no_interrupt[OF Inr] Let_def)
qed

lemma evaluate_calls_non_increasing:
  "min_improvement self = 0 \<or> (0 \<le> min_improvement self \<and> 0 \<le> best_cost self \<and> nonneg_costs net calls) \<Longrightarrow>
   sorted_wrt (\<ge>) (map best_cost (self # evaluate_calls net self calls))"
proof (induction calls arbitrary: self)
  case Nil
  then show ?case by simp
next
  case (Cons call calls)
  obtain iteration ps valid_set where call: "call = (iteration, ps, valid_set)"
    by (cases call)
  define self' where "self' = snd (evaluate net None (self\<lparr>params := ps\<rparr>) iteration valid_set)"
  have mi: "min_improvement self' = min_improvement self"
    by (simp add: self'_def evaluate_min_improvement)
  have le: "best_cost self' \<le> best_cost self"
    using Cons.prems evaluate_best_cost_le[of "self\<lparr>params := ps\<rparr>" net iteration valid_set]
    by (auto simp add: self'_def)
  have nn: "0 \<le> best_cost self'"
    if "0 \<le> min_improvement self \<and> 0 \<le> best_cost self \<and> nonneg_costs net (call # calls)"
    using that evaluate_best_cost_nonneg[of "self\<lparr>params := ps\<rparr>" valid_set net iteration]
    by (simp add: self'_def call nonneg_costs_def list_all_iff)
  have "min_improvement self' = 0 \<or>
      (0 \<le> min_improvement self' \<and> 0 \<le> best_cost self' \<and> nonneg_costs net calls)"
    using Cons.prems nn by (auto simp add: mi nonneg_costs_def)
  then have sorted: "sorted_wrt (\<ge>) (map best_cost (self' # evaluate_calls net self' calls))"
    by (rule Cons.IH)
  then have "\<forall>s\<in>set (evaluate_calls net self' calls). best_cost s \<le> best_cost self'"
    by simp
  with le have "\<forall>s\<in>set (self' # evaluate_calls net self' calls). best_cost s \<le> best_cost self"
    by auto
  with sorted show ?case
    by (simp add: call self'_def[symmetric] Let_def)
qed

text \<open>
  C8, as the code has it. Over a sequence of calls of \<open>evaluate\<close> the best cost never
  increases when \<open>min_improvement\<close> is zero, or when \<open>min_improvement\<close> is not negative
  and neither the best cost at the start nor any validation cost is negative. Whatever
  the costs, a call that computes its cost \<open>c\<close> sets the best cost to \<open>c\<close> and the best
  iteration to its iteration when \<open>best_cost - c > best_cost * min_improvement\<close>, and
  leaves both as they are otherwise.
\<close>

theorem best_cost_non_increasing:
  "(min_improvement self = 0 \<or>
      (0 \<le> min_improvement self \<and> 0 \<le> best_cost self \<and> nonneg_costs net calls) \<longrightarrow>
      sorted_wrt (\<ge>) (map best_cost (self # evaluate_calls net self calls))) \<and>
   (primary_cost net (params self) valid_set = Inr c \<longrightarrow>
      (let self' = snd (evaluate net None self iteration valid_set)
       in if best_cost self - c > best_cost self * min_improvement self
          then best_cost self' = c \<and> best_iter self' = iteration
          else best_cost self' = best_cost self \<and> best_iter self' = best_iter self))"
proof (intro conjI impI)
  assume "min_improvement self = 0 \<or>
      (0 \<le> min_improvement self \<and> 0 \<le> best_cost self \<and> nonneg_costs net calls)"
  then show "sorted_wrt (\<ge>) (map best_cost (self # evaluate_calls net self calls))"
    by (rule evaluate_calls_non_increasing)
next
  assume "primary_cost net (params self) valid_set = Inr c"
  then show "let self' = snd (evaluate net None self iteration valid_set)
       in if best_cost self - c > best_cost self * min_improvement self
          then best_cost self' = c \<and> best_iter self' = iteration
          else best_cost self' = best_cost self \<and> best_iter self' = best_iter self"
    by (simp add: evaluate_no_interrupt Let_def)
qed

lemma f_eval_example_costs: "f_eval example_costs ps x = (x, [])"
  by (simp add: example_costs_def)

lemmas evaluate_example_costs = evaluate_no_interrupt [OF primary_cost_single]

theorem best_cost_non_increasing_witness:
  "0 \<le> min_improvement (example_trainer\<lparr>min_improvement := 1 / 10\<rparr>) \<and>
   0 \<le> best_cost (example_trainer\<lparr>min_improvement := 1 / 10\<rparr>) \<and>
   nonneg_costs example_costs [(0, [], [5]), (3, [], [24 / 5]), (6, [], [3])] \<and>
   map best_cost
     (evaluate_calls example_costs (example_trainer\<lparr>min_improvement := 1 / 10\<rparr>)
        [(0, [], [5]), (3, [], [24 / 5]), (6, [], [3])]) = [5, 5, 3] \<and>
   map best_iter
     (evaluate_calls example_costs (example_trainer\<lparr>min_improvement := 1 / 10\<rparr>)
        [(0, [], [5]), (3, [], [24 / 5]), (6, [], [3])]) = [0, 0, 6] \<and>
   sorted_wrt (\<ge>) (map best_cost
     (example_trainer\<lparr>min_improvement := 1 / 10\<rparr> #
      evaluate_calls example_costs (example_trainer\<lparr>min_improvement := 1 / 10\<rparr>)
        [(0, [], [5]), (3, [], [24 / 5]), (6, [], [3])])) \<and>
   primary_cost example_costs (params example_trainer) [5] = Inr 5 \<and>
   best_cost (snd (evaluate example_costs None example_trainer 0 [5])) = 5"
  using best_cost_non_increasing
    [of "example_trainer\<lparr>min_improvement := 1 / 10\<rparr>" example_costs
        "[(0, [], [5]), (3, [], [24 / 5]), (6, [], [3])]" "[5]" 5 0]
    best_cost_non_increasing [of example_trainer example_costs "[]" "[5]" 5 0]
  by (simp add: primary_cost_single evaluate_example_costs f_eval_example_costs
        nonneg_costs_def example_trainer_def Let_def)

text \<open>
  C8 as stated, for negative costs too, fails with \<open>min_improvement = 1/2\<close> on the
  validation costs \<open>-1\<close> and then \<open>-4/5\<close>: from the best cost \<open>-1\<close> the second call
  counts as an improvement, since \<open>-1 - (-4/5) = -1/5\<close> exceeds \<open>-1 * 1/2\<close>, and the
  best cost rises to \<open>-4/5\<close>.
\<close>

theorem best_cost_increases_counterexample:
  "0 \<le> min_improvement (example_trainer\<lparr>min_improvement := 1 / 2\<rparr>) \<and>
   map best_cost
     (evaluate_calls example_costs (example_trainer\<lparr>min_improvement := 1 / 2\<rparr>)
        [(0, [], [- 1]), (3, [], [- (4 / 5)])]) = [- 1, - (4 / 5)] \<and>
   \<not> sorted_wrt (\<ge>) (map best_cost
     (evaluate_calls example_costs (example_trainer\<lparr>min_improvement := 1 / 2\<rparr>)
        [(0, [], [- 1]), (3, [], [- (4 / 5)])]))"
  by (simp add: evaluate_example_costs example_trainer_def Let_def)

subsection \<open>SGD._nag and SGD._sgd\<close>

lemma sgd_updates_length [simp]: "length (fst (sgd_updates self ps gs)) = length ps"
proof (induction ps arbitrary: gs)
  case Nil
  then show ?case by simp
next
  case (Cons p ps)
  then show ?case by (cases gs) (simp_all add: split_beta Let_def)
qed

lemma nag_moves_length [simp]: "length (fst (nag_moves self ps vs)) = length ps"
proof (induction ps arbitrary: vs)
  case Nil
  then show ?case by simp
next
  case (Cons p ps)
  then show ?case by (cases vs) (simp_all add: split_beta Let_def)
qed

lemma nag_updates_length [simp]:
  "length (fst (nag_updates self ps vs gs us)) = length ps"
  "length (fst (snd (nag_updates self ps vs gs us))) = length vs"
proof (induction ps arbitrary: vs gs us)
  case Nil
  {
    case 1
    show ?case by simp
  next
    case 2
    show ?case by simp
  }
next
  case (Cons p ps)
  {
    case 1
    show ?case
      by (cases vs; cases gs; cases us) (simp_all add: split_beta Let_def Cons.IH)
  next
    case 2
    show ?case
      by (cases vs; cases gs; cases us) (simp_all add: split_beta Let_def Cons.IH)
  }
qed

lemma nag_updates_grads_length [simp]:
  "length (snd (snd (nag_updates self ps vs gs us)))
     = min (length ps) (min (length vs) (min (length gs) (length us)))"
proof (induction ps arbitrary: vs gs us)
  case Nil
  then show ?case by simp
next
  case (Cons p ps)
  then show ?case
    by (cases vs; cases gs; cases us) (simp_all add: split_beta Let_def)
qed













lemma sgd_ignores_velocities:
  "fst (sgd net self train_set velocities) = fst (sgd net self train_set velocities') \<and>
   snd (snd (sgd net self train_set velocities)) = snd (snd (sgd net self train_set velocities'))"
  by (induction train_set arbitrary: self) (simp_all add: split_beta Let_def)


lemma zeros_like_velocities:
  "list_all2 (\<lambda>p v. length (data p) \<le> length (data v)) ps (map zeros_like ps)"
  by (induction ps) (simp_all add: zeros_like_def)




subsection \<open>Frames of the training passes\<close>

lemma set_values_length [simp]: "length (set_values ps ts) = length ps"
proof (induction ps arbitrary: ts)
  case Nil
  then show ?case by simp
next
  case (Cons p ps)
  then show ?case by (cases ts) simp_all
qed


lemma partial_length [simp]: "length new = length old \<Longrightarrow> length (partial j new old) = length old"
  by (simp add: partial_def)















lemma learn_pass_no_interrupt:
  "learn_pass net None self train_set velocities = Inr (learn net self train_set velocities)"
  by (simp add: learn_pass_def)

subsection \<open>What evaluate leaves\<close>

lemma evaluate_params [simp]:
  "params (snd (evaluate net sig self iteration valid_set)) = params self"
  by (simp add: evaluate_def Let_def split: sum.splits)





subsection \<open>The loops keep one snapshot for every parameter\<close>









subsection \<open>SGD.train returns\<close>

lemma evaluate_validation_frequency [simp]:
  "validation_frequency (snd (evaluate net sig self iteration valid_set))
     = validation_frequency self"
  by (simp add: evaluate_def Let_def split: sum.splits)






subsection \<open>Evaluation of concrete runs\<close>



lemma no_interrupts_simps [simp]:
  "in_evaluate no_interrupts i = None" "in_learn no_interrupts i = None"
  "in_minimize no_interrupts i = None"
  by (simp_all add: no_interrupts_def)



subsection \<open>Runs without improvement\<close>








subsection \<open>When the patience elapses\<close>








subsection \<open>The training loops\<close>








lemma interrupt_in_pass_simps [simp]:
  "in_evaluate interrupt_in_pass i = None"
  "in_learn interrupt_in_pass i = (if i = 1 then Some (0, DuringUpdates 1) else None)"
  by (simp_all add: interrupt_in_pass_def)












end
